theory Spec2Isabelle
  imports Complex_Main
begin

section \<open>Numbers\<close>

text \<open>
  The library computes on numpy float64 values. They are modelled as exact reals together
  with the three special values that IEEE 754 division and the sentinel of
  \<open>crossing_point_for_two_lines\<close> can produce. Finite arithmetic is exact: rounding
  error, overflow, underflow and the sign of zero are outside the model (a zero is the
  positive zero, which is what \<open>x - x\<close> and a norm give).
\<close>

datatype npfloat = Fin real | PInf | NInf | NaN

fun np_neg :: "npfloat \<Rightarrow> npfloat" where
  "np_neg (Fin a) = Fin (- a)"
| "np_neg PInf = NInf"
| "np_neg NInf = PInf"
| "np_neg NaN = NaN"

fun np_add :: "npfloat \<Rightarrow> npfloat \<Rightarrow> npfloat" where
  "np_add (Fin a) (Fin b) = Fin (a + b)"
| "np_add NaN _ = NaN"
| "np_add _ NaN = NaN"
| "np_add PInf NInf = NaN"
| "np_add NInf PInf = NaN"
| "np_add PInf _ = PInf"
| "np_add NInf _ = NInf"
| "np_add (Fin a) b = b"

definition np_sub :: "npfloat \<Rightarrow> npfloat \<Rightarrow> npfloat" where
  "np_sub a b = np_add a (np_neg b)"

text \<open>The sign of a value that is not NaN: \<open>True\<close> is negative.\<close>

fun np_negative :: "npfloat \<Rightarrow> bool" where
  "np_negative (Fin a) = (a < 0)"
| "np_negative PInf = False"
| "np_negative NInf = True"
| "np_negative NaN = False"

definition np_inf :: "bool \<Rightarrow> npfloat" where
  "np_inf negative = (if negative then NInf else PInf)"

fun np_mul :: "npfloat \<Rightarrow> npfloat \<Rightarrow> npfloat" where
  "np_mul (Fin a) (Fin b) = Fin (a * b)"
| "np_mul NaN _ = NaN"
| "np_mul _ NaN = NaN"
| "np_mul (Fin a) b = (if a = 0 then NaN else np_inf (np_negative (Fin a) \<noteq> np_negative b))"
| "np_mul a (Fin b) = (if b = 0 then NaN else np_inf (np_negative a \<noteq> np_negative (Fin b)))"
| "np_mul a b = np_inf (np_negative a \<noteq> np_negative b)"

text \<open>
  numpy's \<open>/\<close> (\<open>true_divide\<close>) raises nothing: a division by zero gives an
  infinity, or NaN for \<open>0 / 0\<close>, and a warning.
\<close>

fun np_div :: "npfloat \<Rightarrow> npfloat \<Rightarrow> npfloat" where
  "np_div (Fin a) (Fin b) =
     (if b \<noteq> 0 then Fin (a / b)
      else if a = 0 then NaN
      else np_inf (a < 0))"
| "np_div NaN _ = NaN"
| "np_div _ NaN = NaN"
| "np_div (Fin a) b = Fin 0"
| "np_div a (Fin b) = np_inf (np_negative a \<noteq> np_negative (Fin b))"
| "np_div a b = NaN"

definition is_fin :: "npfloat \<Rightarrow> bool" where
  "is_fin a = (case a of Fin _ \<Rightarrow> True | _ \<Rightarrow> False)"

text \<open>
  \<open>np.round(x, 3)\<close> multiplies by \<open>10 ** 3\<close>, rounds to the nearest integer with
  ties to the even one (\<open>rint\<close>) and divides by \<open>10 ** 3\<close>.
\<close>

definition rint :: "real \<Rightarrow> int" where
  "rint r =
     (let f = \<lfloor>r\<rfloor>; d = r - of_int f
      in if d < 1 / 2 then f
         else if 1 / 2 < d then f + 1
         else if even f then f else f + 1)"

definition round3 :: "real \<Rightarrow> real" where
  "round3 r = of_int (rint (r * 1000)) / 1000"

fun np_round3 :: "npfloat \<Rightarrow> npfloat" where
  "np_round3 (Fin a) = Fin (round3 a)"
| "np_round3 PInf = PInf"
| "np_round3 NInf = NInf"
| "np_round3 NaN = NaN"

section \<open>Track\<close>

text \<open>
  A waypoint array is a two-dimensional numpy array: a list of rows. The loader is trusted
  to give rows \<open>[center_x, center_y, inner_x, inner_y, outer_x, outer_y]\<close>.
\<close>

type_synonym ndarray = "real list list"

record waypoint =
  center_x :: real
  center_y :: real
  inner_x :: real
  inner_y :: real
  outer_x :: real
  outer_y :: real

definition row :: "waypoint \<Rightarrow> real list" where
  "row p = [center_x p, center_y p, inner_x p, inner_y p, outer_x p, outer_y p]"

text \<open>\<open>a[:, lo:hi]\<close>: every row, columns \<open>lo\<close> up to \<open>hi\<close> (excluded).\<close>

definition columns :: "nat \<Rightarrow> nat \<Rightarrow> ndarray \<Rightarrow> ndarray" where
  "columns lo hi a = map (\<lambda>r. take (hi - lo) (drop lo r)) a"

text \<open>\<open>a * k\<close> for a scalar \<open>k\<close>: elementwise.\<close>

definition times_scalar :: "ndarray \<Rightarrow> real \<Rightarrow> ndarray" where
  "times_scalar a k = map (map (\<lambda>x. x * k)) a"

definition flipud :: "ndarray \<Rightarrow> ndarray" where
  "flipud a = rev a"

definition vstack :: "ndarray \<Rightarrow> ndarray \<Rightarrow> ndarray" where
  "vstack a b = a @ b"

text \<open>
  The shapely geometries hold the coordinate sequence they are built from; numpy reads a
  \<open>LineString\<close> back as the array of its coordinates. shapely refuses a \<open>LineString\<close> of
  fewer than two points: the statements about the polygon are made for two waypoints and
  more.
\<close>

datatype line_string = LineString (coords: ndarray)

datatype polygon = Polygon (shell: ndarray)

text \<open>
  shapely keeps the shell of a polygon as a closed ring: when the first and the last of
  the coordinates given differ, the first is repeated at the end.
\<close>

definition exterior :: "polygon \<Rightarrow> ndarray" where
  "exterior p =
     (let s = shell p
      in if s = [] then [] else if hd s = last s then s else s @ [hd s])"

record track =
  name :: string
  waypoints :: ndarray
  center_line :: ndarray
  inner_border :: ndarray
  outer_border :: ndarray
  road_poly :: polygon

definition Track :: "string \<Rightarrow> ndarray \<Rightarrow> track" where
  "Track nm wps =
     (let l_inner_border = LineString (columns 2 4 wps);
          l_outer_border = LineString (columns 4 6 wps)
      in \<lparr> name = nm,
           waypoints = wps,
           center_line = times_scalar (columns 0 2 wps) 100,
           inner_border = times_scalar (columns 2 4 wps) 100,
           outer_border = times_scalar (columns 4 6 wps) 100,
           road_poly = Polygon (vstack (coords l_outer_border) (flipud (coords l_inner_border))) \<rparr>)"

section \<open>GeometryUtils\<close>

text \<open>
  Points and vectors given to the library have finite coordinates. A function whose
  result can leave the reals, or that receives such a result, works on \<open>npfloat\<close>.
\<close>

type_synonym point = "real \<times> real"

type_synonym nppoint = "npfloat \<times> npfloat"

definition fin :: "point \<Rightarrow> nppoint" where
  "fin p = (Fin (fst p), Fin (snd p))"

definition vector :: "point \<Rightarrow> point \<Rightarrow> point" where
  "vector p1 p2 = (fst p1 - fst p2, snd p1 - snd p2)"

text \<open>\<open>np.linalg.det([v1, v2])\<close> and \<open>np.dot(v1, v2)\<close> of two plane vectors.\<close>

definition det :: "point \<Rightarrow> point \<Rightarrow> real" where
  "det v1 v2 = fst v1 * snd v2 - snd v1 * fst v2"

definition dot :: "point \<Rightarrow> point \<Rightarrow> real" where
  "dot v1 v2 = fst v1 * fst v2 + snd v1 * snd v2"

text \<open>\<open>math.atan2(y, x)\<close>: the angle of the point \<open>(x, y)\<close>, in \<open>(-pi, pi]\<close>.\<close>

definition atan2 :: "real \<Rightarrow> real \<Rightarrow> real" where
  "atan2 y x =
     (if 0 < x then arctan (y / x)
      else if x < 0 then (if 0 \<le> y then arctan (y / x) + pi else arctan (y / x) - pi)
      else if 0 < y then pi / 2
      else if y < 0 then - (pi / 2)
      else 0)"

definition degrees :: "real \<Rightarrow> real" where
  "degrees a = a * (180 / pi)"

definition get_angle :: "point \<Rightarrow> point \<Rightarrow> real" where
  "get_angle v1 v2 = (let angle = atan2 (det v1 v2) (dot v1 v2) in degrees angle)"

definition get_vector_length :: "point \<Rightarrow> real" where
  "get_vector_length v = sqrt ((fst v)\<^sup>2 + (snd v)\<^sup>2)"

text \<open>
  The divisor is the float64 that \<open>np.linalg.norm\<close> returns, so the division is
  numpy's whatever \<open>v\<close> is, and nothing is raised.
\<close>

definition normalize_vector :: "point \<Rightarrow> nppoint" where
  "normalize_vector v =
     (np_div (Fin (fst v)) (Fin (get_vector_length v)),
      np_div (Fin (snd v)) (Fin (get_vector_length v)))"

text \<open>\<open>np.cross\<close> of two vectors of dimension 3.\<close>

definition cross :: "real \<times> real \<times> real \<Rightarrow> real \<times> real \<times> real \<Rightarrow> real \<times> real \<times> real" where
  "cross a b =
     (case a of (a0, a1, a2) \<Rightarrow> case b of (b0, b1, b2) \<Rightarrow>
        (a1 * b2 - a2 * b1, a2 * b0 - a0 * b2, a0 * b1 - a1 * b0))"

text \<open>\<open>np.cross\<close> takes a vector of dimension 2 as one whose third component is 0.\<close>

definition perpendicular_vector :: "point \<Rightarrow> point" where
  "perpendicular_vector v =
     (case cross (fst v, snd v, 0) (0, 0, - 1) of (c0, c1, c2) \<Rightarrow> (c0, c1))"

definition perpendicular_normalized_vector_to_straight_line :: "point \<Rightarrow> nppoint" where
  "perpendicular_normalized_vector_to_straight_line v =
     (let p_v = perpendicular_vector v in normalize_vector p_v)"

definition np_cross ::
  "npfloat \<times> npfloat \<times> npfloat \<Rightarrow> npfloat \<times> npfloat \<times> npfloat \<Rightarrow> npfloat \<times> npfloat \<times> npfloat" where
  "np_cross a b =
     (case a of (a0, a1, a2) \<Rightarrow> case b of (b0, b1, b2) \<Rightarrow>
        (np_sub (np_mul a1 b2) (np_mul a2 b1),
         np_sub (np_mul a2 b0) (np_mul a0 b2),
         np_sub (np_mul a0 b1) (np_mul a1 b0)))"

text \<open>
  The homogeneous point \<open>(x, y, z)\<close> in which the two lines meet: the local variables
  \<open>x, y, z\<close> of \<open>crossing_point_for_two_lines\<close>.
\<close>

definition homogeneous_crossing ::
  "nppoint \<Rightarrow> nppoint \<Rightarrow> nppoint \<Rightarrow> nppoint \<Rightarrow> npfloat \<times> npfloat \<times> npfloat" where
  "homogeneous_crossing l1_p1 l1_p2 l2_p1 l2_p2 =
     (let h0 = (fst l1_p1, snd l1_p1, Fin 1);
          h1 = (fst l1_p2, snd l1_p2, Fin 1);
          h2 = (fst l2_p1, snd l2_p1, Fin 1);
          h3 = (fst l2_p2, snd l2_p2, Fin 1);
          l1 = np_cross h0 h1;
          l2 = np_cross h2 h3
      in np_cross l1 l2)"

definition crossing_point_for_two_lines ::
  "nppoint \<Rightarrow> nppoint \<Rightarrow> nppoint \<Rightarrow> nppoint \<Rightarrow> nppoint" where
  "crossing_point_for_two_lines l1_p1 l1_p2 l2_p1 l2_p2 =
     (case homogeneous_crossing l1_p1 l1_p2 l2_p1 l2_p2 of (x, y, z) \<Rightarrow>
        if z = Fin 0 then (PInf, PInf)
        else (np_round3 (np_div x z), np_round3 (np_div y z)))"

text \<open>
  \<open>get_a_and_b_for_line\<close> applies Python's own operators to the coordinates it is
  given, so what a division by zero does depends on what they are: between two Python
  numbers it raises \<open>ZeroDivisionError\<close>; as soon as one operand is a numpy scalar
  (a coordinate read from an array) the operation is numpy's and returns a numpy scalar.
\<close>

datatype scalar = Py npfloat | Np npfloat

datatype error = ZeroDivisionError

fun value_of :: "scalar \<Rightarrow> npfloat" where
  "value_of (Py a) = a"
| "value_of (Np a) = a"

fun sc_sub :: "scalar \<Rightarrow> scalar \<Rightarrow> scalar" where
  "sc_sub (Py a) (Py b) = Py (np_sub a b)"
| "sc_sub a b = Np (np_sub (value_of a) (value_of b))"

fun sc_mul :: "scalar \<Rightarrow> scalar \<Rightarrow> scalar" where
  "sc_mul (Py a) (Py b) = Py (np_mul a b)"
| "sc_mul a b = Np (np_mul (value_of a) (value_of b))"

fun sc_div :: "scalar \<Rightarrow> scalar \<Rightarrow> error + scalar" where
  "sc_div (Py a) (Py b) = (if b = Fin 0 then Inl ZeroDivisionError else Inr (Py (np_div a b)))"
| "sc_div a b = Inr (Np (np_div (value_of a) (value_of b)))"

definition get_a_and_b_for_line ::
  "scalar \<times> scalar \<Rightarrow> scalar \<times> scalar \<Rightarrow> error + scalar \<times> scalar" where
  "get_a_and_b_for_line p1 p2 =
     (case sc_div (sc_sub (snd p1) (snd p2)) (sc_sub (fst p1) (fst p2)) of
        Inl e \<Rightarrow> Inl e
      | Inr a1 \<Rightarrow> (let b1 = sc_sub (snd p2) (sc_mul a1 (fst p2)) in Inr (a1, b1)))"

definition get_a_point_on_a_line_closest_to_point :: "point \<Rightarrow> point \<Rightarrow> point \<Rightarrow> nppoint" where
  "get_a_point_on_a_line_closest_to_point l1_p1 l1_p2 p =
     (let vec = perpendicular_normalized_vector_to_straight_line (vector l1_p1 l1_p2);
          p2 = (np_add (Fin (fst p)) (fst vec), np_add (Fin (snd p)) (snd vec));
          crossing_point = crossing_point_for_two_lines (fin l1_p1) (fin l1_p2) (fin p) p2
      in crossing_point)"

definition is_point_roughly_on_the_line :: "point \<Rightarrow> point \<Rightarrow> point \<Rightarrow> real \<Rightarrow> bool" where
  "is_point_roughly_on_the_line lp1 lp2 p tolerated_angle =
     (let a1 = get_angle (vector lp1 lp2) (vector lp1 p);
          a2 = get_angle (vector lp2 p) (vector lp2 p)
      in a1 < 5 \<and> a2 < 5)"

section \<open>Properties of Track\<close>

lemma columns_row:
  "columns 0 2 (map row w) = map (\<lambda>p. [center_x p, center_y p]) w"
  "columns 2 4 (map row w) = map (\<lambda>p. [inner_x p, inner_y p]) w"
  "columns 4 6 (map row w) = map (\<lambda>p. [outer_x p, outer_y p]) w"
  by (simp_all add: columns_def row_def)

text \<open>
  C1. For every name and every sequence \<open>w\<close> of waypoint records, the track built from
  them has as \<open>center_line\<close>, \<open>inner_border\<close> and \<open>outer_border\<close> the centre, inner
  and outer coordinate pairs of the waypoints, each coordinate multiplied by 100, in the
  order of the waypoints; each of the three has as many points as there are waypoints.
\<close>

theorem Track_borders:
  "center_line (Track nm (map row w)) = map (\<lambda>p. [center_x p * 100, center_y p * 100]) w
   \<and> inner_border (Track nm (map row w)) = map (\<lambda>p. [inner_x p * 100, inner_y p * 100]) w
   \<and> outer_border (Track nm (map row w)) = map (\<lambda>p. [outer_x p * 100, outer_y p * 100]) w
   \<and> length (center_line (Track nm (map row w))) = length w
   \<and> length (inner_border (Track nm (map row w))) = length w
   \<and> length (outer_border (Track nm (map row w))) = length w"
  by (simp add: Track_def Let_def columns_row times_scalar_def)

lemma road_poly_shell:
  "shell (road_poly (Track nm (map row w))) =
     map (\<lambda>p. [outer_x p, outer_y p]) w @ rev (map (\<lambda>p. [inner_x p, inner_y p]) w)"
  by (simp add: Track_def Let_def columns_row vstack_def flipud_def)

text \<open>
  The ring is built from the columns of the waypoint array, before the multiplication by
  100: scaled, it is the outer border followed by the reversed inner border.
\<close>

lemma road_poly_units:
  "times_scalar (shell (road_poly (Track nm wps))) 100 =
     outer_border (Track nm wps) @ rev (inner_border (Track nm wps))"
  by (simp add: Track_def Let_def vstack_def flipud_def times_scalar_def rev_map)

text \<open>
  C6, as the code has it. For a sequence \<open>w\<close> of \<open>n \<ge> 2\<close> waypoint records, the points
  given to the polygon are the \<open>n\<close> outer points of the waypoints in their order followed
  by the \<open>n\<close> inner points in reversed order, \<open>2 * n\<close> points, in the waypoints' own unit:
  they are not the points of \<open>outer_border\<close> and \<open>inner_border\<close>, which are these times
  100. The ring of the polygon repeats the first point at its end unless the first outer
  point is the first inner point: \<open>2 * n + 1\<close> coordinates, or \<open>2 * n\<close>.
\<close>

theorem Track_road_poly_ring:
  assumes "2 \<le> length w"
  shows "shell (road_poly (Track nm (map row w))) =
       map (\<lambda>p. [outer_x p, outer_y p]) w @ rev (map (\<lambda>p. [inner_x p, inner_y p]) w)
   \<and> length (shell (road_poly (Track nm (map row w)))) = 2 * length w
   \<and> times_scalar (shell (road_poly (Track nm (map row w)))) 100 =
       outer_border (Track nm (map row w)) @ rev (inner_border (Track nm (map row w)))
   \<and> exterior (road_poly (Track nm (map row w))) =
       (if [outer_x (hd w), outer_y (hd w)] = [inner_x (hd w), inner_y (hd w)]
        then shell (road_poly (Track nm (map row w)))
        else shell (road_poly (Track nm (map row w))) @ [[outer_x (hd w), outer_y (hd w)]])
   \<and> length (exterior (road_poly (Track nm (map row w)))) =
       (if [outer_x (hd w), outer_y (hd w)] = [inner_x (hd w), inner_y (hd w)]
        then 2 * length w else 2 * length w + 1)"
proof -
  from assms obtain p ps where w: "w = p # ps"
    by (cases w) auto
  have ring: "exterior (road_poly (Track nm (map row w))) =
       (if [outer_x (hd w), outer_y (hd w)] = [inner_x (hd w), inner_y (hd w)]
        then shell (road_poly (Track nm (map row w)))
        else shell (road_poly (Track nm (map row w))) @ [[outer_x (hd w), outer_y (hd w)]])"
    unfolding exterior_def Let_def road_poly_shell by (simp add: w)
  have len: "length (shell (road_poly (Track nm (map row w)))) = 2 * length w"
    by (simp add: road_poly_shell)
  show ?thesis
    unfolding ring using road_poly_units [of nm "map row w"] len by (simp add: road_poly_shell)
qed

theorem Track_road_poly_ring_witness:
  "2 \<le> length
      [\<lparr>center_x = 0, center_y = 0, inner_x = 0, inner_y = 1, outer_x = 0, outer_y = - 1\<rparr>,
       \<lparr>center_x = 10, center_y = 0, inner_x = 10, inner_y = 1, outer_x = 10, outer_y = - 1\<rparr>]
   \<and> shell (road_poly (Track ''t'' (map row
        [\<lparr>center_x = 0, center_y = 0, inner_x = 0, inner_y = 1, outer_x = 0, outer_y = - 1\<rparr>,
         \<lparr>center_x = 10, center_y = 0, inner_x = 10, inner_y = 1, outer_x = 10, outer_y = - 1\<rparr>])))
      = [[0, - 1], [10, - 1], [10, 1], [0, 1]]
   \<and> exterior (road_poly (Track ''t'' (map row
        [\<lparr>center_x = 0, center_y = 0, inner_x = 0, inner_y = 1, outer_x = 0, outer_y = - 1\<rparr>,
         \<lparr>center_x = 10, center_y = 0, inner_x = 10, inner_y = 1, outer_x = 10, outer_y = - 1\<rparr>])))
      = [[0, - 1], [10, - 1], [10, 1], [0, 1], [0, - 1]]"
  using Track_road_poly_ring
    [of "[\<lparr>center_x = 0, center_y = 0, inner_x = 0, inner_y = 1, outer_x = 0, outer_y = - 1\<rparr>,
          \<lparr>center_x = 10, center_y = 0, inner_x = 10, inner_y = 1, outer_x = 10, outer_y = - 1\<rparr>]"
        "''t''"]
  by simp

text \<open>
  C6 fails as stated: on the two waypoints above the points of the polygon are not the
  points of the outer border followed by those of the reversed inner border, and its ring
  has 5 coordinates, not 4.
\<close>

theorem Track_road_poly_not_borders:
  "shell (road_poly (Track ''t'' [[0, 0, 0, 1, 0, - 1], [10, 0, 10, 1, 10, - 1]]))
     \<noteq> outer_border (Track ''t'' [[0, 0, 0, 1, 0, - 1], [10, 0, 10, 1, 10, - 1]])
         @ rev (inner_border (Track ''t'' [[0, 0, 0, 1, 0, - 1], [10, 0, 10, 1, 10, - 1]]))
   \<and> length (exterior (road_poly (Track ''t'' [[0, 0, 0, 1, 0, - 1], [10, 0, 10, 1, 10, - 1]]))) = 5"
  by (simp add: Track_def Let_def columns_def times_scalar_def vstack_def flipud_def exterior_def)

text \<open>The scenario of two waypoints one after the other on a straight road.\<close>

lemma Track_two_waypoints:
  "center_line (Track nm [[0, 0, 0, 1, 0, - 1], [10, 0, 10, 1, 10, - 1]]) = [[0, 0], [1000, 0]]"
  "inner_border (Track nm [[0, 0, 0, 1, 0, - 1], [10, 0, 10, 1, 10, - 1]]) = [[0, 100], [1000, 100]]"
  "outer_border (Track nm [[0, 0, 0, 1, 0, - 1], [10, 0, 10, 1, 10, - 1]]) = [[0, - 100], [1000, - 100]]"
  by (simp_all add: Track_def Let_def columns_def times_scalar_def)

section \<open>Vectors\<close>

lemma get_vector_length_eq_0: "get_vector_length v = 0 \<longleftrightarrow> v = (0, 0)"
  by (cases v) (simp add: get_vector_length_def sum_power2_eq_zero_iff)

lemma normalize_vector_cases:
  "normalize_vector v =
     (if v = (0, 0) then (NaN, NaN)
      else (Fin (fst v / get_vector_length v), Fin (snd v / get_vector_length v)))"
  by (simp add: normalize_vector_def get_vector_length_eq_0)

lemma perpendicular_vector_eq: "perpendicular_vector (x, y) = (- y, x)"
  by (simp add: perpendicular_vector_def cross_def)

lemma perpendicular_vector_length:
  "get_vector_length (perpendicular_vector v) = get_vector_length v"
  by (cases v) (simp add: perpendicular_vector_eq get_vector_length_def add.commute)

text \<open>
  C3, as the code has it. \<open>normalize_vector\<close> raises nothing on the zero vector: the
  division is numpy's, and both components of the result are NaN. The same holds for
  \<open>perpendicular_normalized_vector_to_straight_line\<close>. For every other vector the
  result is \<open>v / length v\<close>.
\<close>

theorem normalize_vector_total:
  "normalize_vector v =
     (if v = (0, 0) then (NaN, NaN)
      else (Fin (fst v / get_vector_length v), Fin (snd v / get_vector_length v)))
   \<and> perpendicular_normalized_vector_to_straight_line (0, 0) = (NaN, NaN)"
  by (simp add: normalize_vector_cases perpendicular_normalized_vector_to_straight_line_def
      perpendicular_vector_eq)

text \<open>C3 fails as stated: on the zero vector the call returns, with NaN components.\<close>

theorem normalize_vector_zero_returns:
  "normalize_vector (0, 0) = (NaN, NaN)"
  by (simp add: normalize_vector_def get_vector_length_def)

text \<open>
  C4, as the code has it. \<open>perpendicular_vector (x, y)\<close> is \<open>(- y, x)\<close>, the first two
  components of the cross product of \<open>(x, y, 0)\<close> with \<open>(0, 0, - 1)\<close>: the vector
  turned by +90 degrees, counter-clockwise.
\<close>

theorem perpendicular_vector_counterclockwise:
  "perpendicular_vector (x, y) = (- y, x)
   \<and> cross (x, y, 0) (0, 0, - 1) = (- y, x, 0)
   \<and> perpendicular_vector (x, y) =
       (x * cos (pi / 2) - y * sin (pi / 2), x * sin (pi / 2) + y * cos (pi / 2))"
  by (simp add: perpendicular_vector_eq cross_def)

text \<open>C4 fails as stated: \<open>(1, 0)\<close> turned clockwise is \<open>(0, - 1)\<close>; the code gives \<open>(0, 1)\<close>.\<close>

theorem perpendicular_vector_not_clockwise:
  "perpendicular_vector (1, 0) = (0, 1) \<and> perpendicular_vector (1, 0) \<noteq> (0, - 1)"
  by (simp add: perpendicular_vector_def cross_def)

text \<open>
  C10. \<open>perpendicular_vector (x, y)\<close> is \<open>(- y, x)\<close>; its dot product with \<open>(x, y)\<close> is 0
  and it is as long as \<open>(x, y)\<close>; when \<open>(x, y)\<close> is not the zero vector,
  \<open>perpendicular_normalized_vector_to_straight_line (x, y)\<close> is a finite vector of
  length 1 whose dot product with \<open>(x, y)\<close> is 0.
\<close>

theorem perpendicular_vector_orthogonal:
  "perpendicular_vector (x, y) = (- y, x)
   \<and> dot (perpendicular_vector (x, y)) (x, y) = 0
   \<and> get_vector_length (perpendicular_vector (x, y)) = get_vector_length (x, y)
   \<and> ((x, y) \<noteq> (0, 0) \<longrightarrow>
        perpendicular_normalized_vector_to_straight_line (x, y)
          = (Fin (- y / get_vector_length (x, y)), Fin (x / get_vector_length (x, y)))
        \<and> get_vector_length (- y / get_vector_length (x, y), x / get_vector_length (x, y)) = 1
        \<and> dot (- y / get_vector_length (x, y), x / get_vector_length (x, y)) (x, y) = 0)"
proof -
  let ?L = "get_vector_length (x, y)"
  have orth: "dot (perpendicular_vector (x, y)) (x, y) = 0"
    by (simp add: perpendicular_vector_eq dot_def)
  have len: "get_vector_length (- y, x) = ?L"
    using perpendicular_vector_length [of "(x, y)"] by (simp add: perpendicular_vector_eq)
  have norm: "perpendicular_normalized_vector_to_straight_line (x, y) = (Fin (- y / ?L), Fin (x / ?L))"
    if "(x, y) \<noteq> (0, 0)"
    using that len
    by (auto simp add: perpendicular_normalized_vector_to_straight_line_def Let_def
        normalize_vector_cases perpendicular_vector_eq)
  have unit: "get_vector_length (- y / ?L, x / ?L) = 1" if "(x, y) \<noteq> (0, 0)"
  proof -
    have L2: "?L\<^sup>2 = x\<^sup>2 + y\<^sup>2"
      by (simp add: get_vector_length_def)
    have "(- y / ?L)\<^sup>2 + (x / ?L)\<^sup>2 = (x\<^sup>2 + y\<^sup>2) / ?L\<^sup>2"
      by (simp add: power_divide add_divide_distrib)
    also have "\<dots> = 1"
      using that by (simp add: L2)
    finally show ?thesis
      by (simp add: get_vector_length_def)
  qed
  have orth': "dot (- y / ?L, x / ?L) (x, y) = 0"
    by (simp add: dot_def)
  show ?thesis
    using orth norm unit orth' by (simp add: perpendicular_vector_eq len)
qed

lemma sqrt_25: "sqrt 25 = 5"
  using real_sqrt_abs [of 5] by simp

theorem perpendicular_vector_orthogonal_witness:
  "(3::real, 4::real) \<noteq> (0, 0)
   \<and> perpendicular_normalized_vector_to_straight_line (3, 4) = (Fin (- 4 / 5), Fin (3 / 5))
   \<and> get_vector_length (- 4 / 5, 3 / 5) = 1
   \<and> dot (- 4 / 5, 3 / 5) (3, 4) = 0"
  using perpendicular_vector_orthogonal [of 3 4] by (simp add: get_vector_length_def sqrt_25)

section \<open>Angles\<close>

lemma atan2_minus: "y \<noteq> 0 \<Longrightarrow> atan2 (- y) x = - atan2 y x"
  by (auto simp: atan2_def arctan_minus)

lemma get_angle_self: "get_angle v v = 0"
  by (simp add: get_angle_def atan2_def det_def dot_def degrees_def not_less)

text \<open>
  C9. For vectors \<open>v1\<close> and \<open>v2\<close> that are not zero and not parallel (their determinant
  is not zero), \<open>get_angle v1 v2 = - get_angle v2 v1\<close>.
\<close>

theorem get_angle_antisymmetric:
  assumes "v1 \<noteq> (0, 0)" and "v2 \<noteq> (0, 0)" and "det v1 v2 \<noteq> 0"
  shows "get_angle v1 v2 = - get_angle v2 v1"
proof -
  have d: "det v2 v1 = - det v1 v2"
    by (simp add: det_def)
  have s: "dot v2 v1 = dot v1 v2"
    by (simp add: dot_def mult.commute)
  show ?thesis
    using assms(3) by (simp add: get_angle_def d s atan2_minus degrees_def)
qed

theorem get_angle_antisymmetric_witness:
  "(1::real, 0::real) \<noteq> (0, 0) \<and> (0::real, 1::real) \<noteq> (0, 0) \<and> det (1, 0) (0, 1) \<noteq> 0
   \<and> get_angle (1, 0) (0, 1) = - get_angle (0, 1) (1, 0)
   \<and> get_angle (1, 0) (0, 1) = 90"
  using get_angle_antisymmetric [of "(1, 0)" "(0, 1)"]
  by (simp add: det_def get_angle_def atan2_def dot_def degrees_def)

text \<open>
  Opposite vectors are excluded for a reason: the angle is 180 degrees in both orders.
\<close>

lemma get_angle_opposite:
  "get_angle (1, 0) (- 1, 0) = 180" "get_angle (- 1, 0) (1, 0) = 180"
  by (simp_all add: get_angle_def atan2_def det_def dot_def degrees_def)

text \<open>
  C5. Whatever \<open>tolerated_angle\<close> is, \<open>is_point_roughly_on_the_line lp1 lp2 p\<close> is the
  value of \<open>get_angle (vector lp1 lp2) (vector lp1 p) < 5\<close>: the second angle is the angle
  of \<open>vector lp2 p\<close> with itself, which is 0.
\<close>

theorem is_point_roughly_on_the_line_first_angle:
  "is_point_roughly_on_the_line lp1 lp2 p tolerated_angle
     = (get_angle (vector lp1 lp2) (vector lp1 p) < 5)
   \<and> get_angle (vector lp2 p) (vector lp2 p) = 0
   \<and> is_point_roughly_on_the_line lp1 lp2 p tolerated_angle
     = is_point_roughly_on_the_line lp1 lp2 p other_angle"
  by (simp add: is_point_roughly_on_the_line_def Let_def get_angle_self)

section \<open>Lines\<close>

lemma homogeneous_crossing_fin:
  "homogeneous_crossing (fin a) (fin b) (fin c) (fin d) =
     (case cross (cross (fst a, snd a, 1) (fst b, snd b, 1))
                 (cross (fst c, snd c, 1) (fst d, snd d, 1))
      of (x, y, z) \<Rightarrow> (Fin x, Fin y, Fin z))"
  by (simp add: homogeneous_crossing_def fin_def Let_def np_cross_def cross_def np_sub_def)

lemma crossing_point_fin:
  "crossing_point_for_two_lines (fin a) (fin b) (fin c) (fin d) =
     (case cross (cross (fst a, snd a, 1) (fst b, snd b, 1))
                 (cross (fst c, snd c, 1) (fst d, snd d, 1))
      of (x, y, z) \<Rightarrow>
        if z = 0 then (PInf, PInf) else (Fin (round3 (x / z)), Fin (round3 (y / z))))"
  by (simp add: crossing_point_for_two_lines_def homogeneous_crossing_fin split: prod.splits)

text \<open>The third homogeneous coordinate is the determinant of the two directions.\<close>

lemma crossing_z_det:
  assumes "cross (cross (fst a, snd a, 1) (fst b, snd b, 1))
                 (cross (fst c, snd c, 1) (fst d, snd d, 1)) = (x, y, z)"
  shows "z = det (vector a b) (vector c d)"
  using assms by (auto simp add: cross_def det_def vector_def algebra_simps)

text \<open>
  When it is not zero, the point \<open>(x / z, y / z)\<close> is on both lines: seen from a point of
  a line, it lies in the direction of the line.
\<close>

lemma crossing_on_both_lines:
  assumes "cross (cross (fst a, snd a, 1) (fst b, snd b, 1))
                 (cross (fst c, snd c, 1) (fst d, snd d, 1)) = (x, y, z)"
    and "z \<noteq> 0"
  shows "det (vector (x / z, y / z) a) (vector b a) = 0"
    and "det (vector (x / z, y / z) c) (vector d c) = 0"
proof -
  obtain a1 a2 b1 b2 c1 c2 d1 d2
    where [simp]: "a = (a1, a2)" "b = (b1, b2)" "c = (c1, c2)" "d = (d1, d2)"
    by (cases a, cases b, cases c, cases d) auto
  from assms(1)
  have x: "x = (b1 - a1) * (c1 * d2 - c2 * d1) - (a1 * b2 - a2 * b1) * (d1 - c1)"
    and y: "y = (a1 * b2 - a2 * b1) * (c2 - d2) - (a2 - b2) * (c1 * d2 - c2 * d1)"
    and z: "z = (a2 - b2) * (d1 - c1) - (b1 - a1) * (c2 - d2)"
    by (simp_all add: cross_def)
  have "det (vector (x / z, y / z) a) (vector b a) * z
      = (x - a1 * z) * (b2 - a2) - (y - a2 * z) * (b1 - a1)"
    using assms(2) by (simp add: det_def vector_def field_simps)
  also have "\<dots> = 0"
    unfolding x y z by (simp add: algebra_simps)
  finally show "det (vector (x / z, y / z) a) (vector b a) = 0"
    using assms(2) by simp
  have "det (vector (x / z, y / z) c) (vector d c) * z
      = (x - c1 * z) * (d2 - c2) - (y - c2 * z) * (d1 - c1)"
    using assms(2) by (simp add: det_def vector_def field_simps)
  also have "\<dots> = 0"
    unfolding x y z by (simp add: algebra_simps)
  finally show "det (vector (x / z, y / z) c) (vector d c) = 0"
    using assms(2) by simp
qed

text \<open>
  What \<open>round3\<close> does: the result is a multiple of \<open>1 / 1000\<close> at most \<open>1 / 2000\<close> away,
  and of the two candidates of a tie it is the even multiple.
\<close>

lemma rint_close: "\<bar>of_int (rint s) - s\<bar> \<le> 1 / 2"
  unfolding rint_def Let_def by (auto; linarith)

lemma rint_tie_even: "\<bar>of_int (rint s) - s\<bar> = 1 / 2 \<Longrightarrow> even (rint s)"
  unfolding rint_def Let_def by (auto split: if_splits; linarith)

lemma round3_spec:
  "\<exists>k::int. round3 r = of_int k / 1000
     \<and> \<bar>of_int k / 1000 - r\<bar> \<le> 1 / 2000
     \<and> (\<bar>of_int k / 1000 - r\<bar> = 1 / 2000 \<longrightarrow> even k)"
proof -
  let ?k = "rint (r * 1000)"
  have e: "of_int ?k / 1000 - r = (of_int ?k - r * 1000) / 1000"
    by (simp add: field_simps)
  have a: "\<bar>of_int ?k / 1000 - r\<bar> = \<bar>of_int ?k - r * 1000\<bar> / 1000"
    unfolding e by simp
  have near: "\<bar>of_int ?k / 1000 - r\<bar> \<le> 1 / 2000"
    unfolding a using rint_close [of "r * 1000"] by simp
  have tie: "even ?k" if "\<bar>of_int ?k / 1000 - r\<bar> = 1 / 2000"
    using that rint_tie_even [of "r * 1000"] unfolding a by simp
  show ?thesis
    using near tie by (intro exI [of _ ?k]) (simp add: round3_def)
qed

lemma round3_0: "round3 0 = 0"
  by (simp add: round3_def rint_def)

lemma round3_5: "round3 5 = 5"
  by (simp add: round3_def rint_def)

lemma round3_third: "round3 (1 / 3) = 333 / 1000"
  by (simp add: round3_def rint_def)

lemma round3_ties:
  "round3 (1 / 2000) = 0" "round3 (3 / 2000) = 2 / 1000" "round3 (- (1 / 2000)) = 0"
  by (simp_all add: round3_def rint_def)

text \<open>
  C2. For points with finite coordinates, let \<open>(x, y, z)\<close> be the cross product of the
  two homogeneous lines. \<open>crossing_point_for_two_lines\<close> returns the sentinel
  \<open>(PInf, PInf)\<close> exactly when \<open>z = 0\<close>, that is when the directions of the two lines
  have determinant 0. Otherwise \<open>(x / z, y / z)\<close> is a point of both lines, and the result
  is this point with each coordinate rounded to 3 decimals: the multiple of \<open>1 / 1000\<close>
  nearest to it, the even one in a tie. The function is total: no case raises.
\<close>

theorem crossing_point_for_two_lines_sentinel:
  "(case cross (cross (fst a, snd a, 1) (fst b, snd b, 1))
               (cross (fst c, snd c, 1) (fst d, snd d, 1))
    of (x, y, z) \<Rightarrow>
      (crossing_point_for_two_lines (fin a) (fin b) (fin c) (fin d) = (PInf, PInf) \<longleftrightarrow> z = 0)
      \<and> homogeneous_crossing (fin a) (fin b) (fin c) (fin d) = (Fin x, Fin y, Fin z)
      \<and> crossing_point_for_two_lines (fin a) (fin b) (fin c) (fin d) =
          (if z = 0 then (PInf, PInf) else (Fin (round3 (x / z)), Fin (round3 (y / z))))
      \<and> z = det (vector a b) (vector c d)
      \<and> (z \<noteq> 0 \<longrightarrow>
            det (vector (x / z, y / z) a) (vector b a) = 0
          \<and> det (vector (x / z, y / z) c) (vector d c) = 0
          \<and> (\<exists>k l :: int.
                crossing_point_for_two_lines (fin a) (fin b) (fin c) (fin d)
                  = (Fin (of_int k / 1000), Fin (of_int l / 1000))
              \<and> \<bar>of_int k / 1000 - x / z\<bar> \<le> 1 / 2000
              \<and> (\<bar>of_int k / 1000 - x / z\<bar> = 1 / 2000 \<longrightarrow> even k)
              \<and> \<bar>of_int l / 1000 - y / z\<bar> \<le> 1 / 2000
              \<and> (\<bar>of_int l / 1000 - y / z\<bar> = 1 / 2000 \<longrightarrow> even l))))"
proof -
  obtain x y z
    where e: "cross (cross (fst a, snd a, 1) (fst b, snd b, 1))
                    (cross (fst c, snd c, 1) (fst d, snd d, 1)) = (x, y, z)"
    by (metis prod_cases3)
  obtain k :: int
    where k: "round3 (x / z) = of_int k / 1000"
      "\<bar>of_int k / 1000 - x / z\<bar> \<le> 1 / 2000"
      "\<bar>of_int k / 1000 - x / z\<bar> = 1 / 2000 \<longrightarrow> even k"
    using round3_spec [of "x / z"] by blast
  obtain l :: int
    where l: "round3 (y / z) = of_int l / 1000"
      "\<bar>of_int l / 1000 - y / z\<bar> \<le> 1 / 2000"
      "\<bar>of_int l / 1000 - y / z\<bar> = 1 / 2000 \<longrightarrow> even l"
    using round3_spec [of "y / z"] by blast
  have rounded: "\<exists>k l :: int.
        crossing_point_for_two_lines (fin a) (fin b) (fin c) (fin d)
          = (Fin (of_int k / 1000), Fin (of_int l / 1000))
      \<and> \<bar>of_int k / 1000 - x / z\<bar> \<le> 1 / 2000
      \<and> (\<bar>of_int k / 1000 - x / z\<bar> = 1 / 2000 \<longrightarrow> even k)
      \<and> \<bar>of_int l / 1000 - y / z\<bar> \<le> 1 / 2000
      \<and> (\<bar>of_int l / 1000 - y / z\<bar> = 1 / 2000 \<longrightarrow> even l)" if "z \<noteq> 0"
    using that k l by (intro exI [of _ k] exI [of _ l]) (simp add: crossing_point_fin e)
  show ?thesis
    using crossing_z_det [OF e] crossing_on_both_lines [OF e] rounded
    by (simp add: e crossing_point_fin homogeneous_crossing_fin)
qed

text \<open>
  The lines \<open>y = x\<close> and \<open>y = 1 - 2 * x\<close> meet in \<open>(1 / 3, 1 / 3)\<close>: the result is
  \<open>(0.333, 0.333)\<close>.
\<close>

theorem crossing_point_for_two_lines_sentinel_witness:
  "det (vector (0, 0) (1, 1)) (vector (0, 1) (1, - 1)) \<noteq> 0
   \<and> crossing_point_for_two_lines (fin (0, 0)) (fin (1, 1)) (fin (0, 1)) (fin (1, - 1))
       = (Fin (333 / 1000), Fin (333 / 1000))
   \<and> \<bar>333 / 1000 - 1 / 3 :: real\<bar> \<le> 1 / 2000"
  using crossing_point_for_two_lines_sentinel [of "(0, 0)" "(1, 1)" "(0, 1)" "(1, - 1)"]
  by (simp add: cross_def det_def vector_def crossing_point_fin round3_third)

text \<open>Two lines of the same direction: the sentinel.\<close>

lemma crossing_point_parallel:
  "crossing_point_for_two_lines (fin (0, 0)) (fin (1, 1)) (fin (0, 1)) (fin (1, 2)) = (PInf, PInf)"
  by (simp add: crossing_point_fin cross_def)

text \<open>
  The sentinel is returned for \<open>z = 0\<close> only, also when a coordinate given is infinite or
  NaN: a quotient is \<open>PInf\<close> only for a finite \<open>z\<close>, and \<open>z\<close> is finite only when all the
  coordinates are.
\<close>

lemma np_mul_fin: "is_fin (np_mul a b) \<Longrightarrow> is_fin a \<and> is_fin b"
  by (cases a; cases b) (auto simp: is_fin_def np_inf_def split: if_splits)

lemma np_sub_fin: "is_fin (np_sub a b) \<Longrightarrow> is_fin a \<and> is_fin b"
  by (cases a; cases b) (auto simp: is_fin_def np_sub_def)

lemma is_fin_mul_sub: "is_fin a \<Longrightarrow> is_fin b \<Longrightarrow> is_fin (np_mul a b) \<and> is_fin (np_sub a b)"
  by (cases a; cases b) (auto simp: is_fin_def np_sub_def)

lemma np_div_PInf: "np_div x z = PInf \<Longrightarrow> is_fin z \<and> (z = Fin 0 \<or> \<not> is_fin x)"
  by (cases x; cases z) (auto simp: is_fin_def np_inf_def split: if_splits)

lemma np_round3_PInf: "np_round3 a = PInf \<Longrightarrow> a = PInf"
  by (cases a) auto

lemma crossing_point_sentinel_iff:
  "crossing_point_for_two_lines l1_p1 l1_p2 l2_p1 l2_p2 = (PInf, PInf)
   \<longleftrightarrow> snd (snd (homogeneous_crossing l1_p1 l1_p2 l2_p1 l2_p2)) = Fin 0"
proof -
  obtain x1 y1 x2 y2 x3 y3 x4 y4
    where p: "l1_p1 = (x1, y1)" "l1_p2 = (x2, y2)" "l2_p1 = (x3, y3)" "l2_p2 = (x4, y4)"
    by (cases l1_p1, cases l1_p2, cases l2_p1, cases l2_p2) auto
  obtain x y z where h: "homogeneous_crossing l1_p1 l1_p2 l2_p1 l2_p2 = (x, y, z)"
    by (metis prod_cases3)
  have False if nz: "z \<noteq> Fin 0" and r: "np_round3 (np_div x z) = PInf"
  proof -
    from r have q: "np_div x z = PInf"
      by (rule np_round3_PInf)
    from np_div_PInf [OF q] nz have fz: "is_fin z" and nx: "\<not> is_fin x"
      by auto
    have one: "is_fin (Fin 1)"
      by (simp add: is_fin_def)
    from h
    have z: "z = np_sub
          (np_mul (np_sub (np_mul y1 (Fin 1)) (np_mul (Fin 1) y2))
                  (np_sub (np_mul (Fin 1) x4) (np_mul x3 (Fin 1))))
          (np_mul (np_sub (np_mul (Fin 1) x2) (np_mul x1 (Fin 1)))
                  (np_sub (np_mul y3 (Fin 1)) (np_mul (Fin 1) y4)))"
      and x: "x = np_sub
          (np_mul (np_sub (np_mul (Fin 1) x2) (np_mul x1 (Fin 1)))
                  (np_sub (np_mul x3 y4) (np_mul y3 x4)))
          (np_mul (np_sub (np_mul x1 y2) (np_mul y1 x2))
                  (np_sub (np_mul (Fin 1) x4) (np_mul x3 (Fin 1))))"
      by (simp_all add: homogeneous_crossing_def p Let_def np_cross_def)
    from fz
    have f: "is_fin x1" "is_fin x2" "is_fin x3" "is_fin x4"
        "is_fin y1" "is_fin y2" "is_fin y3" "is_fin y4"
      unfolding z by (blast dest: np_sub_fin np_mul_fin)+
    have "is_fin x"
      unfolding x using f one
      by (intro is_fin_mul_sub [THEN conjunct1] is_fin_mul_sub [THEN conjunct2])
    with nx show False
      by simp
  qed
  then show ?thesis
    by (auto simp add: crossing_point_for_two_lines_def h)
qed

lemma sqrt_100: "sqrt 100 = 10"
  using real_sqrt_abs [of 10] by simp

text \<open>
  C8. \<open>get_a_point_on_a_line_closest_to_point (0, 0) (10, 0) (5, 5)\<close> is \<open>(5, 0)\<close>, the
  foot of the perpendicular from \<open>(5, 5)\<close> on the line through \<open>(0, 0)\<close> and \<open>(10, 0)\<close>.
\<close>

theorem closest_point_scenario:
  "get_a_point_on_a_line_closest_to_point (0, 0) (10, 0) (5, 5) = (Fin 5, Fin 0)"
proof -
  have v: "perpendicular_normalized_vector_to_straight_line (vector (0, 0) (10, 0))
      = (Fin 0, Fin (- 1))"
    by (simp add: perpendicular_normalized_vector_to_straight_line_def vector_def
        perpendicular_vector_def cross_def normalize_vector_def get_vector_length_def sqrt_100)
  have "crossing_point_for_two_lines (fin (0, 0)) (fin (10, 0)) (fin (5, 5)) (fin (5, 4))
      = (Fin 5, Fin 0)"
    by (simp add: crossing_point_fin cross_def round3_0 round3_5)
  then show ?thesis
    by (simp add: get_a_point_on_a_line_closest_to_point_def v fin_def)
qed

text \<open>
  C7, as the code has it. For \<open>p1.x \<noteq> p2.x\<close> the call returns \<open>(a, b)\<close> with both points
  on the line \<open>y = a * x + b\<close>. For \<open>p1.x = p2.x\<close> it raises \<open>ZeroDivisionError\<close> when
  the coordinates are Python numbers; when they are numpy scalars it raises nothing and
  returns a slope that is infinite or NaN.
\<close>

theorem get_a_and_b_for_line_cases:
  "get_a_and_b_for_line (Py (Fin x1), Py (Fin y1)) (Py (Fin x2), Py (Fin y2)) =
     (if x1 = x2 then Inl ZeroDivisionError
      else Inr (Py (Fin ((y1 - y2) / (x1 - x2))),
                Py (Fin (y2 - (y1 - y2) / (x1 - x2) * x2))))
   \<and> get_a_and_b_for_line (Np (Fin x1), Np (Fin y1)) (Np (Fin x2), Np (Fin y2)) =
     (if x1 = x2
      then Inr (Np (if y1 = y2 then NaN else np_inf (y1 < y2)),
                Np (np_sub (Fin y2) (np_mul (if y1 = y2 then NaN else np_inf (y1 < y2)) (Fin x2))))
      else Inr (Np (Fin ((y1 - y2) / (x1 - x2))),
                Np (Fin (y2 - (y1 - y2) / (x1 - x2) * x2))))
   \<and> (x1 \<noteq> x2 \<longrightarrow>
        y1 = (y1 - y2) / (x1 - x2) * x1 + (y2 - (y1 - y2) / (x1 - x2) * x2)
      \<and> y2 = (y1 - y2) / (x1 - x2) * x2 + (y2 - (y1 - y2) / (x1 - x2) * x2))"
proof -
  have "y1 = (y1 - y2) / (x1 - x2) * x1 + (y2 - (y1 - y2) / (x1 - x2) * x2)" if "x1 \<noteq> x2"
  proof -
    have "(y1 - y2) / (x1 - x2) * x1 - (y1 - y2) / (x1 - x2) * x2
        = (y1 - y2) / (x1 - x2) * (x1 - x2)"
      by (simp only: right_diff_distrib)
    also have "\<dots> = y1 - y2"
      using that by simp
    finally show ?thesis
      by simp
  qed
  then show ?thesis
    by (simp add: get_a_and_b_for_line_def np_sub_def Let_def)
qed

theorem get_a_and_b_for_line_cases_witness:
  "(0::real) \<noteq> 2
   \<and> get_a_and_b_for_line (Py (Fin 0), Py (Fin 1)) (Py (Fin 2), Py (Fin 5))
       = Inr (Py (Fin 2), Py (Fin 1))
   \<and> get_a_and_b_for_line (Np (Fin 0), Np (Fin 1)) (Np (Fin 2), Np (Fin 5))
       = Inr (Np (Fin 2), Np (Fin 1))"
  using get_a_and_b_for_line_cases [of 0 1 2 5] by simp

text \<open>
  C7 fails as stated: on two points of a vertical line read from numpy arrays the call
  returns, with the slope \<open>-inf\<close> and the intercept \<open>inf\<close>.
\<close>

theorem get_a_and_b_for_line_numpy_vertical:
  "get_a_and_b_for_line (Np (Fin 1), Np (Fin 2)) (Np (Fin 1), Np (Fin 3)) = Inr (Np NInf, Np PInf)"
  by (simp add: get_a_and_b_for_line_def np_sub_def np_inf_def)

text \<open>On the same points as Python numbers it raises.\<close>

lemma get_a_and_b_for_line_python_vertical:
  "get_a_and_b_for_line (Py (Fin 1), Py (Fin 2)) (Py (Fin 1), Py (Fin 3)) = Inl ZeroDivisionError"
  by (simp add: get_a_and_b_for_line_def np_sub_def)

end
